theory Spec2Isabelle
  imports Main
begin

section \<open>Strings\<close>

text \<open>
  A Python \<open>str\<close> is modelled as a \<open>string\<close>, one \<open>char\<close> per code point, which
  restricts the model to code points below 256.  \<open>join sep xs\<close> is \<open>sep.join(xs)\<close>.
\<close>

fun join :: "string \<Rightarrow> string list \<Rightarrow> string" where
  "join sep [] = []"
| "join sep [x] = x"
| "join sep (x # y # ys) = x @ sep @ join sep (y # ys)"

section \<open>The query builder (lines 38 to 48 of \<open>search_pubmed\<close>)\<close>

text \<open>
  \<open>query_parts\<close> starts empty; the author clause is appended when \<open>authors\<close> is a
  non-empty list, then the keyword clause when \<open>title_abstract_keywords\<close> is; the
  query is the \<open>AND\<close>-join of the parts, or the empty string when there is none.
\<close>

definition author_clause :: "string list \<Rightarrow> string" where
  "author_clause authors =
     ''('' @ join '' OR '' (map (\<lambda>author. author @ ''[Author]'') authors) @ '')''"

definition keyword_clause :: "string list \<Rightarrow> string" where
  "keyword_clause title_abstract_keywords =
     ''('' @ join '' OR '' (map (\<lambda>keyword. keyword @ ''[Title/Abstract]'')
        title_abstract_keywords) @ '')''"

definition query_parts :: "string list \<Rightarrow> string list \<Rightarrow> string list" where
  "query_parts title_abstract_keywords authors =
     (let parts0 = [];
          parts1 = (if authors \<noteq> [] then parts0 @ [author_clause authors] else parts0);
          parts2 = (if title_abstract_keywords \<noteq> []
                    then parts1 @ [keyword_clause title_abstract_keywords] else parts1)
      in parts2)"

definition build_query :: "string list \<Rightarrow> string list \<Rightarrow> string" where
  "build_query title_abstract_keywords authors =
     (let parts = query_parts title_abstract_keywords authors
      in if parts \<noteq> [] then join '' AND '' parts else [])"

section \<open>Python values and exceptions\<close>

text \<open>
  The values that flow through the program: what \<open>response.json()\<close> returns, the
  values of the request parameters and the dictionaries the tools return.  A \<open>dict\<close>
  is an association list in insertion order, read with \<open>map_of\<close>.  JSON floats are
  not modelled.
\<close>

datatype pyval =
    PNone
  | PBool bool
  | PInt int
  | PStr string
  | PList "pyval list"
  | PDict "(string \<times> pyval) list"

fun type_name :: "pyval \<Rightarrow> string" where
  "type_name PNone = ''NoneType''"
| "type_name (PBool b) = ''bool''"
| "type_name (PInt i) = ''int''"
| "type_name (PStr s) = ''str''"
| "type_name (PList xs) = ''list''"
| "type_name (PDict kvs) = ''dict''"

text \<open>
  The exceptions, all subclasses of \<open>Exception\<close>.  \<open>ParseError\<close> is the one
  \<open>xml.etree.ElementTree\<close> raises, built from expat's message and the position;
  \<open>Raised\<close> stands for whatever \<open>requests.get\<close> or \<open>response.json()\<close> raise,
  with its message.
\<close>

datatype exn =
    ParseError string nat nat
  | AttributeError string string
  | TypeError string
  | Raised string

fun dec :: "nat \<Rightarrow> string" where
  "dec n = (if n < 10 then [''0123456789'' ! n]
            else dec (n div 10) @ [''0123456789'' ! (n mod 10)])"

declare dec.simps [simp del]

definition quoted :: "string \<Rightarrow> string" where
  "quoted s = [CHR 0x27] @ s @ [CHR 0x27]"

text \<open>\<open>str_exn e\<close> is \<open>str(e)\<close>.\<close>

fun str_exn :: "exn \<Rightarrow> string" where
  "str_exn (ParseError msg line col) = msg @ '': line '' @ dec line @ '', column '' @ dec col"
| "str_exn (AttributeError ty attr) =
     quoted ty @ '' object has no attribute '' @ quoted attr"
| "str_exn (TypeError msg) = msg"
| "str_exn (Raised msg) = msg"

text \<open>\<open>py_get d key dflt\<close> is \<open>d.get(key, default)\<close>: only a dict has the method.\<close>

fun py_get :: "pyval \<Rightarrow> string \<Rightarrow> pyval \<Rightarrow> exn + pyval" where
  "py_get (PDict kvs) key dflt =
     Inr (case map_of kvs key of None \<Rightarrow> dflt | Some v \<Rightarrow> v)"
| "py_get v key dflt = Inl (AttributeError (type_name v) ''get'')"

text \<open>
  \<open>py_join sep v\<close> is \<open>sep.join(v)\<close> for any value: a list must hold strings only,
  a string is joined character by character, a dict by its keys, and nothing else is
  iterable.
\<close>

fun first_non_str :: "nat \<Rightarrow> pyval list \<Rightarrow> (nat \<times> pyval) option" where
  "first_non_str i [] = None"
| "first_non_str i (PStr s # vs) = first_non_str (Suc i) vs"
| "first_non_str i (v # vs) = Some (i, v)"

fun the_strs :: "pyval list \<Rightarrow> string list" where
  "the_strs [] = []"
| "the_strs (PStr s # vs) = s # the_strs vs"
| "the_strs (v # vs) = the_strs vs"

fun py_join :: "string \<Rightarrow> pyval \<Rightarrow> exn + string" where
  "py_join sep (PList vs) =
     (case first_non_str 0 vs of
        None \<Rightarrow> Inr (join sep (the_strs vs))
      | Some (i, v) \<Rightarrow>
          Inl (TypeError (''sequence item '' @ dec i @ '': expected str instance, ''
                          @ type_name v @ '' found'')))"
| "py_join sep (PStr s) = Inr (join sep (map (\<lambda>c. [c]) s))"
| "py_join sep (PDict kvs) = Inr (join sep (map fst kvs))"
| "py_join sep v = Inl (TypeError ''can only join an iterable'')"

fun py_len :: "pyval \<Rightarrow> exn + int" where
  "py_len (PList vs) = Inr (int (length vs))"
| "py_len (PStr s) = Inr (int (length s))"
| "py_len (PDict kvs) = Inr (int (length kvs))"
| "py_len v = Inl (TypeError (''object of type '' @ quoted (type_name v) @ '' has no len()''))"

section \<open>Element trees and the paths the program uses\<close>

text \<open>
  An element as \<open>xml.etree.ElementTree\<close> builds it: tag, attributes, text (\<open>None\<close>
  when there is none) and children.  The tail text is never read by the program and is
  left out.
\<close>

datatype element =
  Element (elem_tag: string) (elem_attrib: "(string \<times> string) list")
          (elem_text: "string option") (elem_children: "element list")

text \<open>\<open>iter e\<close> is \<open>e.iter()\<close>: the element, then its descendants, in document order.\<close>

fun iter :: "element \<Rightarrow> element list" where
  "iter (Element t a x cs) = Element t a x cs # concat (map iter cs)"

text \<open>
  The path language, as far as the program's paths go.  \<open>.\<close> keeps the context
  element; \<open>//tag\<close> selects the descendants with that tag, never the element itself;
  \<open>tag\<close> after a slash selects children; \<open>[@key='value']\<close> keeps the elements whose
  attribute has that value.
\<close>

datatype step = Self | Descendant string | Child string | AttrEq string string

fun select :: "step \<Rightarrow> element list \<Rightarrow> element list" where
  "select Self result = result"
| "select (Descendant t) result =
     concat (map (\<lambda>elem. filter (\<lambda>e. elem_tag e = t)
                            (concat (map iter (elem_children elem)))) result)"
| "select (Child t) result =
     concat (map (\<lambda>elem. filter (\<lambda>e. elem_tag e = t) (elem_children elem)) result)"
| "select (AttrEq k v) result =
     filter (\<lambda>elem. map_of (elem_attrib elem) k = Some v) result"

definition iterfind :: "element \<Rightarrow> step list \<Rightarrow> element list" where
  "iterfind elem path = fold select path [elem]"

definition findall :: "element \<Rightarrow> step list \<Rightarrow> element list" where
  "findall elem path = iterfind elem path"

text \<open>
  \<open>findtext\<close>: the text of the first match, the empty string when that element has no
  text, the default when nothing matches.
\<close>

definition findtext :: "element \<Rightarrow> step list \<Rightarrow> string \<Rightarrow> string" where
  "findtext elem path dflt =
     (case iterfind elem path of
        [] \<Rightarrow> dflt
      | e # es \<Rightarrow> (case elem_text e of None \<Rightarrow> [] | Some t \<Rightarrow> t))"

definition path_PubmedArticle :: "step list" where
  "path_PubmedArticle = [Self, Descendant ''PubmedArticle'']"

definition path_ArticleTitle :: "step list" where
  "path_ArticleTitle = [Self, Descendant ''ArticleTitle'']"

definition path_AbstractText :: "step list" where
  "path_AbstractText = [Self, Descendant ''Abstract'', Child ''AbstractText'']"

definition path_JournalTitle :: "step list" where
  "path_JournalTitle = [Self, Descendant ''Journal'', Child ''Title'']"

definition path_Volume :: "step list" where
  "path_Volume = [Self, Descendant ''Journal'', Child ''JournalIssue'', Child ''Volume'']"

definition path_Issue :: "step list" where
  "path_Issue = [Self, Descendant ''Journal'', Child ''JournalIssue'', Child ''Issue'']"

definition path_MedlinePgn :: "step list" where
  "path_MedlinePgn = [Self, Descendant ''Pagination'', Child ''MedlinePgn'']"

definition path_doi :: "step list" where
  "path_doi = [Self, Descendant ''ELocationID'', AttrEq ''EIdType'' ''doi'']"

definition path_Year :: "step list" where
  "path_Year = [Self, Descendant ''PubDate'', Child ''Year'']"

definition path_Author :: "step list" where
  "path_Author = [Self, Descendant ''Author'']"

definition path_LastName :: "step list" where
  "path_LastName = [Child ''LastName'']"

definition path_Initials :: "step list" where
  "path_Initials = [Child ''Initials'']"

definition path_PMID :: "step list" where
  "path_PMID = [Self, Descendant ''PMID'']"

section \<open>Whitespace\<close>

text \<open>
  \<open>str.strip()\<close> removes the characters Python counts as whitespace from both ends:
  below 256 these are 9 to 13, 28 to 32, 133 and 160.
\<close>

definition isspace :: "char \<Rightarrow> bool" where
  "isspace c =
     (let n = (of_char c :: nat)
      in (9 \<le> n \<and> n \<le> 13) \<or> (28 \<le> n \<and> n \<le> 32) \<or> n = 133 \<or> n = 160)"

definition lstrip :: "string \<Rightarrow> string" where
  "lstrip s = dropWhile isspace s"

definition rstrip :: "string \<Rightarrow> string" where
  "rstrip s = rev (dropWhile isspace (rev s))"

definition strip :: "string \<Rightarrow> string" where
  "strip s = rstrip (lstrip s)"

section \<open>\<open>parse_article_details\<close>\<close>

definition NA :: string where
  "NA = ''N/A''"

text \<open>The inner loop of lines 123 to 127, appending to \<open>authors\<close>.\<close>

definition author_name :: "element \<Rightarrow> string" where
  "author_name author =
     (let lastname = findtext author path_LastName [];
          initials = findtext author path_Initials []
      in strip (lastname @ '' '' @ initials))"

definition article_authors :: "element \<Rightarrow> string list" where
  "article_authors article =
     fold (\<lambda>author authors. authors @ [author_name author]) (findall article path_Author) []"

text \<open>The body of the outer loop: the dictionary appended for one article.\<close>

definition article_record :: "element \<Rightarrow> (string \<times> pyval) list" where
  "article_record article =
     (let title = findtext article path_ArticleTitle NA;
          abstract = findtext article path_AbstractText NA;
          journal = findtext article path_JournalTitle NA;
          volume = findtext article path_Volume NA;
          issue = findtext article path_Issue NA;
          pages = findtext article path_MedlinePgn NA;
          doi = findtext article path_doi NA;
          pubdate = findtext article path_Year NA;
          authors = article_authors article
      in [(''pubmed_id'', PStr (findtext article path_PMID NA)),
          (''link'', PStr (''https://pubmed.ncbi.nlm.nih.gov/'' @ findtext article path_PMID NA)),
          (''title'', PStr title),
          (''authors'', PList (map PStr authors)),
          (''source'', PStr journal),
          (''volume'', PStr volume),
          (''issue'', PStr issue),
          (''pages'', PStr pages),
          (''doi'', PStr doi),
          (''pubdate'', PStr pubdate),
          (''abstract'', PStr abstract)])"

text \<open>
  \<open>ET.fromstring\<close> is the library's parser and is a parameter: it returns the root
  element, or raises.
\<close>

definition parse_article_details ::
  "(string \<Rightarrow> exn + element) \<Rightarrow> string \<Rightarrow> exn + pyval list" where
  "parse_article_details fromstring xml_content =
     (case fromstring xml_content of
        Inl e \<Rightarrow> Inl e
      | Inr root \<Rightarrow>
          Inr (fold (\<lambda>article results. results @ [PDict (article_record article)])
                 (findall root path_PubmedArticle) []))"

section \<open>The remote service and the world\<close>

text \<open>
  What the program does to the outside is kept in a \<open>world\<close>: the requests it has
  issued, in order, and the lines it has logged.  The outside is a parameter: the answer
  of \<open>requests.get\<close> (the response body, or an exception) may depend on the requests
  issued before; \<open>json_decode\<close> is \<open>response.json()\<close> and \<open>fromstring\<close> is
  \<open>ET.fromstring\<close>.
\<close>

type_synonym params = "(string \<times> pyval) list"

record world =
  sent :: "(string \<times> params) list"
  logged :: "string list"

record remote =
  http_get :: "(string \<times> params) list \<Rightarrow> string \<Rightarrow> params \<Rightarrow> exn + string"
  json_decode :: "string \<Rightarrow> exn + pyval"
  fromstring :: "string \<Rightarrow> exn + element"

definition requests_get ::
  "remote \<Rightarrow> string \<Rightarrow> params \<Rightarrow> world \<Rightarrow> (exn + string) \<times> world" where
  "requests_get env url ps w = (http_get env (sent w) url ps, w\<lparr>sent := sent w @ [(url, ps)]\<rparr>)"

definition logging_info :: "string \<Rightarrow> world \<Rightarrow> world" where
  "logging_info msg w = w\<lparr>logged := logged w @ [msg]\<rparr>"

definition BASE_URL :: string where
  "BASE_URL = ''https://eutils.ncbi.nlm.nih.gov/entrez/eutils''"

definition search_url :: string where
  "search_url = BASE_URL @ ''/esearch.fcgi''"

definition fetch_url :: string where
  "fetch_url = BASE_URL @ ''/efetch.fcgi''"

definition search_params :: "string \<Rightarrow> int \<Rightarrow> params" where
  "search_params query num_results =
     [(''db'', PStr ''pubmed''), (''term'', PStr query),
      (''retmax'', PInt num_results), (''retmode'', PStr ''json'')]"

definition fetch_params :: "string \<Rightarrow> params" where
  "fetch_params ids = [(''db'', PStr ''pubmed''), (''id'', PStr ids), (''retmode'', PStr ''xml'')]"

section \<open>\<open>format_paper_details\<close>\<close>

text \<open>
  The identifiers are joined first (which raises on anything but strings), then the one
  fetch request is issued and its body parsed.  Nothing is caught here.
\<close>

definition format_paper_details ::
  "remote \<Rightarrow> pyval \<Rightarrow> world \<Rightarrow> (exn + pyval list) \<times> world" where
  "format_paper_details env pubmed_ids w =
     (case py_join '','' pubmed_ids of
        Inl e \<Rightarrow> (Inl e, w)
      | Inr ids \<Rightarrow>
          (case requests_get env fetch_url (fetch_params ids) w of
             (Inl e, w') \<Rightarrow> (Inl e, w')
           | (Inr fetch_content, w') \<Rightarrow>
               (parse_article_details (fromstring env) fetch_content, w')))"

section \<open>\<open>search_pubmed\<close>\<close>

definition no_parameters :: "(string \<times> pyval) list" where
  "no_parameters =
     [(''success'', PBool False),
      (''error'', PStr ''No search parameters provided. Please specify authors or keywords.''),
      (''results'', PList [])]"

text \<open>\<open>search_data.get("esearchresult", {}).get("idlist", [])\<close>\<close>

definition idlist :: "pyval \<Rightarrow> exn + pyval" where
  "idlist search_data =
     (case py_get search_data ''esearchresult'' (PDict []) of
        Inl e \<Rightarrow> Inl e
      | Inr r \<Rightarrow> py_get r ''idlist'' (PList []))"

text \<open>The body of the \<open>try\<close>: a returned dictionary, or the exception that left it.\<close>

definition search_pubmed_try ::
  "remote \<Rightarrow> string list \<Rightarrow> string list \<Rightarrow> int \<Rightarrow> world
     \<Rightarrow> (exn + (string \<times> pyval) list) \<times> world" where
  "search_pubmed_try env title_abstract_keywords authors num_results w =
     (let query = build_query title_abstract_keywords authors
      in if query = [] then (Inr no_parameters, w)
         else
           (case requests_get env search_url (search_params query num_results)
                   (logging_info (''Search query: '' @ query) w) of
              (Inl e, w1) \<Rightarrow> (Inl e, w1)
            | (Inr search_content, w1) \<Rightarrow>
                (case json_decode env search_content of
                   Inl e \<Rightarrow> (Inl e, w1)
                 | Inr search_data \<Rightarrow>
                     (case idlist search_data of
                        Inl e \<Rightarrow> (Inl e, w1)
                      | Inr pmids \<Rightarrow>
                          (case format_paper_details env pmids w1 of
                             (Inl e, w2) \<Rightarrow> (Inl e, w2)
                           | (Inr formatted_results, w2) \<Rightarrow>
                               (case py_len pmids of
                                  Inl e \<Rightarrow> (Inl e, w2)
                                | Inr n \<Rightarrow>
                                    (Inr [(''success'', PBool True),
                                          (''results'', PList formatted_results),
                                          (''total_results'', PInt n)], w2)))))))"

text \<open>The \<open>except Exception\<close> clause turns any exception into the failure dictionary.\<close>

definition search_pubmed ::
  "remote \<Rightarrow> string list \<Rightarrow> string list \<Rightarrow> int \<Rightarrow> world
     \<Rightarrow> (string \<times> pyval) list \<times> world" where
  "search_pubmed env title_abstract_keywords authors num_results w =
     (case search_pubmed_try env title_abstract_keywords authors num_results w of
        (Inr d, w') \<Rightarrow> (d, w')
      | (Inl e, w') \<Rightarrow>
          ([(''success'', PBool False), (''error'', PStr (str_exn e)), (''results'', PList [])],
           w'))"

section \<open>The text fields of a record\<close>

text \<open>
  The keys of the dictionary whose value is a \<open>findtext\<close> with the marker as default
  (lines 114 to 121 and 130), each with its path.
\<close>

definition text_fields :: "(string \<times> step list) list" where
  "text_fields =
     [(''title'', path_ArticleTitle), (''abstract'', path_AbstractText),
      (''source'', path_JournalTitle), (''volume'', path_Volume), (''issue'', path_Issue),
      (''pages'', path_MedlinePgn), (''doi'', path_doi), (''pubdate'', path_Year),
      (''pubmed_id'', path_PMID)]"

section \<open>Sample data\<close>

text \<open>
  A fetch document with two articles: the first has every field but an abstract, and
  three authors of which one is empty and two are equal; the second is empty.  The
  search answer lists three identifiers.
\<close>

definition article_one :: element where
  "article_one =
     Element ''PubmedArticle'' [] None
       [Element ''MedlineCitation'' [] None
          [Element ''PMID'' [] (Some ''111'') [],
           Element ''Article'' [] None
             [Element ''Journal'' [] None
                [Element ''JournalIssue'' [] None
                   [Element ''Volume'' [] (Some ''12'') [],
                    Element ''Issue'' [] (Some ''3'') [],
                    Element ''PubDate'' [] None [Element ''Year'' [] (Some ''2020'') []]],
                 Element ''Title'' [] (Some ''Nature'') []],
              Element ''ArticleTitle'' [] (Some ''On cells'') [],
              Element ''Pagination'' [] None [Element ''MedlinePgn'' [] (Some ''1-9'') []],
              Element ''ELocationID'' [(''EIdType'', ''pii'')] (Some ''X1'') [],
              Element ''ELocationID'' [(''EIdType'', ''doi'')] (Some ''10.1/x'') [],
              Element ''AuthorList'' [] None
                [Element ''Author'' [] None
                   [Element ''LastName'' [] (Some ''Doe'') [],
                    Element ''Initials'' [] (Some ''JP'') []],
                 Element ''Author'' [] None [],
                 Element ''Author'' [] None
                   [Element ''LastName'' [] (Some ''Doe'') [],
                    Element ''Initials'' [] (Some ''JP'') []]]]]]"

definition article_two :: element where
  "article_two = Element ''PubmedArticle'' [] None []"

definition example_root :: element where
  "example_root = Element ''PubmedArticleSet'' [] None [article_one, article_two]"

definition example_data :: pyval where
  "example_data =
     PDict [(''header'', PDict []),
            (''esearchresult'', PDict [(''count'', PStr ''3''),
               (''idlist'', PList [PStr ''111'', PStr ''222'', PStr ''333''])])]"

definition example_remote :: remote where
  "example_remote =
     \<lparr>http_get = (\<lambda>history url ps. if url = search_url then Inr ''{}'' else Inr ''<xml/>''),
      json_decode = (\<lambda>body. Inr example_data),
      fromstring = (\<lambda>body. Inr example_root)\<rparr>"

definition broken_remote :: remote where
  "broken_remote =
     \<lparr>http_get = (\<lambda>history url ps. if url = search_url then Inr ''{}'' else Inr ''oops''),
      json_decode = (\<lambda>body. Inr example_data),
      fromstring = (\<lambda>body. Inl (ParseError ''syntax error'' 1 0))\<rparr>"

definition empty_world :: world where
  "empty_world = \<lparr>sent = [], logged = []\<rparr>"

section \<open>Auxiliary facts\<close>

lemmas path_defs = path_PubmedArticle_def path_ArticleTitle_def path_AbstractText_def
  path_JournalTitle_def path_Volume_def path_Issue_def path_MedlinePgn_def path_doi_def
  path_Year_def path_Author_def path_LastName_def path_Initials_def path_PMID_def

lemmas example_defs = example_remote_def broken_remote_def empty_world_def
  example_data_def idlist_def search_url_def fetch_url_def BASE_URL_def example_root_def
  article_one_def article_two_def

lemma fold_snoc_map: "fold (\<lambda>x acc. acc @ [f x]) xs acc = acc @ map f xs"
  by (induction xs arbitrary: acc) simp_all

lemma build_query_empty_iff:
  "build_query kws authors = [] \<longleftrightarrow> kws = [] \<and> authors = []"
  by (simp add: build_query_def query_parts_def author_clause_def keyword_clause_def)

text \<open>A \<open>.//tag\<close> path selects, in document order, the elements below the context.\<close>

lemma iter_tl: "tl (iter e) = concat (map iter (elem_children e))"
  by (cases e) simp

lemma iterfind_descendant:
  "iterfind e [Self, Descendant t] = filter (\<lambda>x. elem_tag x = t) (tl (iter e))"
  by (simp add: iterfind_def iter_tl)

lemma article_authors_map:
  "article_authors a = map author_name (findall a path_Author)"
  by (simp add: article_authors_def fold_snoc_map)

lemma parse_ok:
  "parser xml = Inr root \<Longrightarrow>
   parse_article_details parser xml =
     Inr (map (\<lambda>a. PDict (article_record a))
           (filter (\<lambda>x. elem_tag x = ''PubmedArticle'') (tl (iter root))))"
  by (simp add: parse_article_details_def fold_snoc_map findall_def path_PubmedArticle_def
        iterfind_descendant)

text \<open>What \<open>strip\<close> removes is whitespace, and what it leaves has none at its ends.\<close>

lemma strip_decomp:
  "\<exists>l r. s = l @ strip s @ r \<and> list_all isspace l \<and> list_all isspace r"
proof -
  let ?l = "takeWhile isspace s"
  let ?m = "dropWhile isspace s"
  let ?r = "rev (takeWhile isspace (rev ?m))"
  have "?m = strip s @ ?r"
    unfolding strip_def rstrip_def lstrip_def
    by (metis rev_append rev_rev_ident takeWhile_dropWhile_id)
  then have "s = ?l @ strip s @ ?r"
    by (metis takeWhile_dropWhile_id)
  moreover have "list_all isspace ?l"
    by (simp add: list_all_iff) (meson set_takeWhileD)
  moreover have "list_all isspace ?r"
    by (simp add: list_all_iff) (meson set_takeWhileD)
  ultimately show ?thesis by blast
qed

lemma strip_ends:
  "strip s = [] \<or> (\<not> isspace (hd (strip s)) \<and> \<not> isspace (last (strip s)))"
proof (cases "strip s = []")
  case True
  then show ?thesis by simp
next
  case False
  let ?m = "dropWhile isspace s"
  have ne: "dropWhile isspace (rev ?m) \<noteq> []"
    using False by (simp add: strip_def rstrip_def lstrip_def)
  have "\<not> isspace (hd (dropWhile isspace (rev ?m)))"
    using ne by (rule hd_dropWhile)
  then have l: "\<not> isspace (last (strip s))"
    using ne by (simp add: strip_def rstrip_def lstrip_def last_rev)
  have mne: "?m \<noteq> []"
    using ne by (cases "?m") simp_all
  have hm: "\<not> isspace (hd ?m)"
    using mne by (rule hd_dropWhile)
  obtain r where "?m = strip s @ r"
    unfolding strip_def rstrip_def lstrip_def
    by (metis rev_append rev_rev_ident takeWhile_dropWhile_id)
  then have "hd ?m = hd (strip s)"
    using False by (metis hd_append2)
  with hm l show ?thesis by simp
qed

text \<open>Joining a list of strings never raises, and what can be joined has a length.\<close>

lemma first_non_str_strs: "first_non_str i (map PStr ids) = None"
  by (induction ids arbitrary: i) simp_all

lemma the_strs_strs: "the_strs (map PStr ids) = ids"
  by (induction ids) simp_all

lemma py_join_strs: "py_join sep (PList (map PStr ids)) = Inr (join sep ids)"
  by (simp add: first_non_str_strs the_strs_strs)

text \<open>The pipeline, once the search and the fetch have answered.\<close>

lemma format_paper_details_fetched:
  assumes "py_join '','' pmids = Inr ids"
    and "http_get env (sent w) fetch_url (fetch_params ids) = Inr doc"
  shows "fst (format_paper_details env pmids w) = parse_article_details (fromstring env) doc"
  using assms by (simp add: format_paper_details_def requests_get_def)

lemma search_pubmed_try_fetched:
  assumes "kws \<noteq> [] \<or> authors \<noteq> []"
    and "http_get env (sent w) search_url (search_params (build_query kws authors) n) = Inr sbody"
    and "json_decode env sbody = Inr data"
    and "idlist data = Inr pmids"
    and "py_join '','' pmids = Inr ids"
    and "http_get env (sent w @ [(search_url, search_params (build_query kws authors) n)])
           fetch_url (fetch_params ids) = Inr doc"
  shows "fst (search_pubmed_try env kws authors n w) =
           (case parse_article_details (fromstring env) doc of
              Inl e \<Rightarrow> Inl e
            | Inr rs \<Rightarrow>
                (case py_len pmids of
                   Inl e \<Rightarrow> Inl e
                 | Inr m \<Rightarrow> Inr [(''success'', PBool True), (''results'', PList rs),
                                 (''total_results'', PInt m)]))"
proof -
  have q: "build_query kws authors \<noteq> []"
    using assms(1) by (simp add: build_query_empty_iff)
  show ?thesis
    using q assms(2-6)
    by (simp add: search_pubmed_try_def Let_def requests_get_def logging_info_def
          format_paper_details_def split: sum.splits)
qed

lemma fst_search_pubmed:
  "fst (search_pubmed env kws authors n w) =
     (case fst (search_pubmed_try env kws authors n w) of
        Inr d \<Rightarrow> d
      | Inl e \<Rightarrow> [(''success'', PBool False), (''error'', PStr (str_exn e)),
                  (''results'', PList [])])"
  by (simp add: search_pubmed_def split: prod.splits sum.splits)

text \<open>The entries of a record, key by key.\<close>

lemma article_record_keys:
  "map fst (article_record a) =
     [''pubmed_id'', ''link'', ''title'', ''authors'', ''source'', ''volume'', ''issue'',
      ''pages'', ''doi'', ''pubdate'', ''abstract'']"
  by (simp add: article_record_def)

lemma article_record_lookups:
  "map_of (article_record a) ''title'' = Some (PStr (findtext a path_ArticleTitle NA))"
  "map_of (article_record a) ''abstract'' = Some (PStr (findtext a path_AbstractText NA))"
  "map_of (article_record a) ''source'' = Some (PStr (findtext a path_JournalTitle NA))"
  "map_of (article_record a) ''volume'' = Some (PStr (findtext a path_Volume NA))"
  "map_of (article_record a) ''issue'' = Some (PStr (findtext a path_Issue NA))"
  "map_of (article_record a) ''pages'' = Some (PStr (findtext a path_MedlinePgn NA))"
  "map_of (article_record a) ''doi'' = Some (PStr (findtext a path_doi NA))"
  "map_of (article_record a) ''pubdate'' = Some (PStr (findtext a path_Year NA))"
  "map_of (article_record a) ''pubmed_id'' = Some (PStr (findtext a path_PMID NA))"
  "map_of (article_record a) ''link'' =
     Some (PStr (''https://pubmed.ncbi.nlm.nih.gov/'' @ findtext a path_PMID NA))"
  "map_of (article_record a) ''authors'' = Some (PList (map PStr (article_authors a)))"
  by (simp_all add: article_record_def)

lemma article_record_text_all:
  "list_all (\<lambda>(k, p). map_of (article_record a) k = Some (PStr (findtext a p NA))) text_fields"
  unfolding text_fields_def
  by (simp only: list.pred_inject case_prod_conv article_record_lookups simp_thms)

lemma article_record_text:
  assumes "(k, p) \<in> set text_fields"
  shows "map_of (article_record a) k = Some (PStr (findtext a p NA))"
  using article_record_text_all [of a] assms unfolding list_all_iff by blast

section \<open>Properties of the query builder\<close>

text \<open>
  Claim C1.  With a non-empty author list and a non-empty keyword list the query is the
  parenthesised \<open>OR\<close>-join of the authors, each tagged \<open>[Author]\<close>, then \<open>AND\<close>, then
  the parenthesised \<open>OR\<close>-join of the keywords, each tagged \<open>[Title/Abstract]\<close>; with
  authors only it is the author clause alone.
\<close>

theorem build_query_clauses:
  "authors \<noteq> [] \<Longrightarrow>
     build_query kws authors =
       (if kws \<noteq> []
        then ''('' @ join '' OR '' (map (\<lambda>a. a @ ''[Author]'') authors) @ '')''
             @ '' AND ''
             @ ''('' @ join '' OR '' (map (\<lambda>k. k @ ''[Title/Abstract]'') kws) @ '')''
        else ''('' @ join '' OR '' (map (\<lambda>a. a @ ''[Author]'') authors) @ '')'')"
  by (simp add: build_query_def query_parts_def author_clause_def keyword_clause_def)

theorem build_query_clauses_witness:
  "build_query [''cancer''] [''Doe JP''] = ''(Doe JP[Author]) AND (cancer[Title/Abstract])''
   \<and> build_query [] [''Doe JP'', ''Smith A''] = ''(Doe JP[Author] OR Smith A[Author])''"
  using build_query_clauses [of "[''Doe JP'']" "[''cancer'']"]
        build_query_clauses [of "[''Doe JP'', ''Smith A'']" "[]"]
  by simp

section \<open>Properties of the pipeline\<close>

text \<open>
  Claim C2.  When both the keyword list and the author list are empty, \<open>search_pubmed\<close>
  returns the failure dictionary: \<open>success\<close> false, a readable \<open>error\<close> string and an
  empty \<open>results\<close> list.  The world is returned as it was: no request has been issued
  to the search or the fetch endpoint.
\<close>

theorem search_pubmed_no_criteria:
  "search_pubmed env [] [] num_results w =
     ([(''success'', PBool False),
       (''error'', PStr ''No search parameters provided. Please specify authors or keywords.''),
       (''results'', PList [])], w)"
  by (simp add: search_pubmed_def search_pubmed_try_def build_query_def query_parts_def
        no_parameters_def)

text \<open>
  Claim C3.  When the body the fetch endpoint returns is not well-formed XML, so that the
  parser raises its \<open>ParseError\<close>, \<open>parse_article_details\<close> and \<open>format_paper_details\<close>
  raise that error and return no record, and \<open>search_pubmed\<close> returns the failure
  dictionary whose \<open>error\<close> is the text of the exception, which is not empty, with an
  empty \<open>results\<close> list.
\<close>

theorem malformed_fetch_fails:
  assumes "fromstring env doc = Inl (ParseError msg line col)"
    and "kws \<noteq> [] \<or> authors \<noteq> []"
    and "http_get env (sent w) search_url (search_params (build_query kws authors) n) = Inr sbody"
    and "json_decode env sbody = Inr data"
    and "idlist data = Inr pmids"
    and "py_join '','' pmids = Inr ids"
    and "http_get env (sent w @ [(search_url, search_params (build_query kws authors) n)])
           fetch_url (fetch_params ids) = Inr doc"
  shows "parse_article_details (fromstring env) doc = Inl (ParseError msg line col)
       \<and> fst (format_paper_details env pmids
              (snd (requests_get env search_url (search_params (build_query kws authors) n)
                     (logging_info (''Search query: '' @ build_query kws authors) w))))
           = Inl (ParseError msg line col)
       \<and> fst (search_pubmed env kws authors n w) =
           [(''success'', PBool False),
            (''error'', PStr (str_exn (ParseError msg line col))),
            (''results'', PList [])]
       \<and> str_exn (ParseError msg line col) \<noteq> []"
proof -
  have p: "parse_article_details (fromstring env) doc = Inl (ParseError msg line col)"
    using assms(1) by (simp add: parse_article_details_def)
  have f: "fst (format_paper_details env pmids
              (snd (requests_get env search_url (search_params (build_query kws authors) n)
                     (logging_info (''Search query: '' @ build_query kws authors) w))))
           = Inl (ParseError msg line col)"
    using format_paper_details_fetched [OF assms(6), of env
        "snd (requests_get env search_url (search_params (build_query kws authors) n)
                (logging_info (''Search query: '' @ build_query kws authors) w))" doc]
      assms(7) p
    by (simp add: requests_get_def logging_info_def)
  have "fst (search_pubmed_try env kws authors n w) = Inl (ParseError msg line col)"
    using search_pubmed_try_fetched [OF assms(2-7)] by (simp add: p)
  then have "fst (search_pubmed env kws authors n w) =
           [(''success'', PBool False),
            (''error'', PStr (str_exn (ParseError msg line col))),
            (''results'', PList [])]"
    by (simp add: fst_search_pubmed)
  with p f show ?thesis by simp
qed

theorem malformed_fetch_fails_witness:
  "parse_article_details (fromstring broken_remote) ''oops'' = Inl (ParseError ''syntax error'' 1 0)
   \<and> fst (search_pubmed broken_remote [] [''Doe JP''] 10 empty_world) =
       [(''success'', PBool False), (''error'', PStr ''syntax error: line 1, column 0''),
        (''results'', PList [])]"
  using malformed_fetch_fails [of broken_remote "''oops''" "''syntax error''" 1 0 "[]"
      "[''Doe JP'']" empty_world 10 "''{}''" example_data
      "PList [PStr ''111'', PStr ''222'', PStr ''333'']" "''111,222,333''"]
  by (simp add: example_defs dec.simps)

text \<open>
  Claim C4.  For every list of identifiers and every well-formed fetch document, the
  \<open>results\<close> of the success dictionary hold exactly one record for each article element
  of the document (the \<open>PubmedArticle\<close> elements below its root), in document order,
  whatever the identifiers requested were, and \<open>total_results\<close> is the length of the
  identifier list.
\<close>

theorem records_follow_document:
  assumes "kws \<noteq> [] \<or> authors \<noteq> []"
    and "http_get env (sent w) search_url (search_params (build_query kws authors) n) = Inr sbody"
    and "json_decode env sbody = Inr data"
    and "idlist data = Inr (PList (map PStr ids))"
    and "http_get env (sent w @ [(search_url, search_params (build_query kws authors) n)])
           fetch_url (fetch_params (join '','' ids)) = Inr doc"
    and "fromstring env doc = Inr root"
  shows "fst (search_pubmed env kws authors n w) =
           [(''success'', PBool True),
            (''results'', PList (map (\<lambda>a. PDict (article_record a))
               (filter (\<lambda>e. elem_tag e = ''PubmedArticle'') (tl (iter root))))),
            (''total_results'', PInt (int (length ids)))]"
proof -
  have "fst (search_pubmed_try env kws authors n w) =
          Inr [(''success'', PBool True),
            (''results'', PList (map (\<lambda>a. PDict (article_record a))
               (filter (\<lambda>e. elem_tag e = ''PubmedArticle'') (tl (iter root))))),
            (''total_results'', PInt (int (length ids)))]"
    using search_pubmed_try_fetched [OF assms(1-4) py_join_strs assms(5)]
    by (simp add: parse_ok [of "fromstring env" doc root, OF assms(6)])
  then show ?thesis by (simp add: fst_search_pubmed)
qed

theorem records_follow_document_witness:
  "fst (search_pubmed example_remote [''cancer''] [] 10 empty_world) =
     [(''success'', PBool True),
      (''results'', PList [PDict (article_record article_one), PDict (article_record article_two)]),
      (''total_results'', PInt 3)]"
  using records_follow_document [of "[''cancer'']" "[]" example_remote empty_world 10 "''{}''"
      example_data "[''111'', ''222'', ''333'']" "''<xml/>''" example_root]
  by (simp add: example_defs)

text \<open>
  Claim C9.  Whatever \<open>search_pubmed\<close> returns is one of two dictionaries: the keys
  \<open>success\<close> (true), \<open>results\<close> and \<open>total_results\<close>, with no \<open>error\<close>; or the keys
  \<open>success\<close> (false), \<open>error\<close> (a string) and \<open>results\<close> (the empty list), with no
  \<open>total_results\<close>.
\<close>

theorem search_pubmed_envelope:
  "(\<exists>rs t. fst (search_pubmed env kws authors n w) =
       [(''success'', PBool True), (''results'', PList rs), (''total_results'', PInt t)])
   \<or> (\<exists>msg. fst (search_pubmed env kws authors n w) =
       [(''success'', PBool False), (''error'', PStr msg), (''results'', PList [])])"
proof (cases "fst (search_pubmed_try env kws authors n w)")
  case (Inl e)
  then show ?thesis by (simp add: fst_search_pubmed)
next
  case (Inr d)
  have "d = no_parameters \<or> (\<exists>rs t. d = [(''success'', PBool True), (''results'', PList rs),
              (''total_results'', PInt t)])"
    using Inr
    by (auto simp add: search_pubmed_try_def Let_def split: if_splits sum.splits prod.splits)
  then show ?thesis using Inr by (auto simp add: fst_search_pubmed no_parameters_def)
qed

section \<open>Properties of the parsed records\<close>

text \<open>
  Claim C5, as the code has it.  Every record has the eleven keys.  Each of the nine
  text fields (id, title, abstract, source, volume, issue, pages, doi, pubdate) is the
  marker \<open>N/A\<close> when its path matches nothing in the article, and otherwise the text of
  the first match, the empty string when that element has no text.  The two other fields
  are not the marker when their path matches nothing: \<open>authors\<close> is then the empty list
  and \<open>link\<close> the base URL followed by the marker.
\<close>

theorem article_record_text_fields:
  "map fst (article_record a) =
     [''pubmed_id'', ''link'', ''title'', ''authors'', ''source'', ''volume'', ''issue'',
      ''pages'', ''doi'', ''pubdate'', ''abstract'']
   \<and> (\<forall>(k, p) \<in> set text_fields.
         map_of (article_record a) k =
           Some (PStr (case iterfind a p of
                         [] \<Rightarrow> ''N/A''
                       | e # es \<Rightarrow> (case elem_text e of None \<Rightarrow> [] | Some t \<Rightarrow> t))))
   \<and> (iterfind a path_Author = [] \<longrightarrow> map_of (article_record a) ''authors'' = Some (PList []))
   \<and> (iterfind a path_PMID = [] \<longrightarrow>
        map_of (article_record a) ''link'' = Some (PStr ''https://pubmed.ncbi.nlm.nih.gov/N/A''))"
proof -
  have "map_of (article_record a) k =
           Some (PStr (case iterfind a p of
                         [] \<Rightarrow> ''N/A''
                       | e # es \<Rightarrow> (case elem_text e of None \<Rightarrow> [] | Some t \<Rightarrow> t)))"
    if "(k, p) \<in> set text_fields" for k p
    using article_record_text [OF that, of a] by (simp add: findtext_def NA_def)
  moreover have "map_of (article_record a) ''authors'' = Some (PList [])"
    if "iterfind a path_Author = []"
    using that by (simp add: article_record_lookups article_authors_map findall_def)
  moreover have "map_of (article_record a) ''link'' =
      Some (PStr ''https://pubmed.ncbi.nlm.nih.gov/N/A'')"
    if "iterfind a path_PMID = []"
    using that by (simp add: article_record_lookups findtext_def NA_def)
  ultimately show ?thesis
    using article_record_keys [of a] by blast
qed

theorem article_record_text_fields_witness:
  "map_of (article_record article_one) ''abstract'' = Some (PStr ''N/A'')
   \<and> map_of (article_record article_one) ''title'' = Some (PStr ''On cells'')
   \<and> map_of (article_record article_one) ''doi'' = Some (PStr ''10.1/x'')
   \<and> map_of (article_record article_one) ''volume'' = Some (PStr ''12'')
   \<and> map_of (article_record article_two) ''authors'' = Some (PList [])
   \<and> map_of (article_record article_two) ''link'' = Some (PStr ''https://pubmed.ncbi.nlm.nih.gov/N/A'')"
  using article_record_text_fields [of article_one] article_record_text_fields [of article_two]
  by (simp add: text_fields_def iterfind_def path_defs article_one_def article_two_def)

text \<open>
  The claim as the specification states it, that any field whose path is absent equals the
  marker, fails for \<open>authors\<close> and for \<open>link\<close>: in the empty article neither path
  matches, and neither field is \<open>N/A\<close>.
\<close>

theorem authors_link_not_marker:
  "iterfind article_two path_Author = []
   \<and> map_of (article_record article_two) ''authors'' = Some (PList [])
   \<and> map_of (article_record article_two) ''authors'' \<noteq> Some (PStr ''N/A'')
   \<and> iterfind article_two path_PMID = []
   \<and> map_of (article_record article_two) ''link'' = Some (PStr ''https://pubmed.ncbi.nlm.nih.gov/N/A'')
   \<and> map_of (article_record article_two) ''link'' \<noteq> Some (PStr ''N/A'')"
  by (simp add: article_record_def article_authors_def findall_def findtext_def iterfind_def
        path_defs article_two_def NA_def)

text \<open>
  Claim C6.  The \<open>authors\<close> field holds, for each \<open>Author\<close> element of the article in
  document order, the last name, a single space and the initials, stripped: \<open>strip\<close>
  removes whitespace only, and leaves none at either end.  An author with neither part
  gives the empty string, and nothing is removed from the list, so that equal names stay.
\<close>

theorem article_record_authors:
  "map_of (article_record a) ''authors'' =
     Some (PList (map (\<lambda>author. PStr (strip (findtext author [Child ''LastName''] []
                                              @ '' '' @ findtext author [Child ''Initials''] [])))
                    (filter (\<lambda>e. elem_tag e = ''Author'') (tl (iter a)))))
   \<and> (\<exists>l r. s = l @ strip s @ r \<and> list_all isspace l \<and> list_all isspace r)
   \<and> (strip s = [] \<or> (\<not> isspace (hd (strip s)) \<and> \<not> isspace (last (strip s))))
   \<and> strip ([] @ '' '' @ []) = []"
proof -
  have "map_of (article_record a) ''authors'' = Some (PList (map PStr (article_authors a)))"
    by (simp add: article_record_lookups)
  moreover have "article_authors a =
      map (\<lambda>author. strip (findtext author [Child ''LastName''] []
                              @ '' '' @ findtext author [Child ''Initials''] []))
        (filter (\<lambda>e. elem_tag e = ''Author'') (tl (iter a)))"
    by (simp add: article_authors_map findall_def path_Author_def iterfind_descendant
          author_name_def path_LastName_def path_Initials_def)
  moreover have "strip ([] @ '' '' @ []) = []"
    by (simp add: strip_def lstrip_def rstrip_def isspace_def)
  ultimately show ?thesis
    using strip_decomp [of s] strip_ends [of s] by (simp add: comp_def)
qed

theorem article_record_authors_witness:
  "map_of (article_record article_one) ''authors'' =
     Some (PList [PStr ''Doe JP'', PStr [], PStr ''Doe JP''])"
  using article_record_authors [of article_one "[]"]
  by (simp add: article_one_def findtext_def iterfind_def strip_def lstrip_def rstrip_def
        isspace_def)

text \<open>
  Claim C7.  The \<open>link\<close> field is the fixed base URL followed by the value of the id
  field, also when the article has no \<open>PMID\<close> and the id is the marker.
\<close>

theorem article_record_link:
  "map_of (article_record a) ''pubmed_id'' = Some (PStr (findtext a path_PMID ''N/A''))
   \<and> map_of (article_record a) ''link'' =
       Some (PStr (''https://pubmed.ncbi.nlm.nih.gov/'' @ findtext a path_PMID ''N/A''))
   \<and> (iterfind a path_PMID = [] \<longrightarrow>
        map_of (article_record a) ''pubmed_id'' = Some (PStr ''N/A'')
        \<and> map_of (article_record a) ''link'' = Some (PStr ''https://pubmed.ncbi.nlm.nih.gov/N/A''))"
  by (simp add: article_record_lookups NA_def findtext_def)

theorem article_record_link_witness:
  "map_of (article_record article_two) ''link'' = Some (PStr ''https://pubmed.ncbi.nlm.nih.gov/N/A'')
   \<and> map_of (article_record article_one) ''link'' = Some (PStr ''https://pubmed.ncbi.nlm.nih.gov/111'')"
  using article_record_link [of article_two] article_record_link [of article_one]
  by (simp add: iterfind_def findtext_def path_defs article_two_def article_one_def)

text \<open>
  Claim C10.  An article with no \<open>Author\<close> element has the empty list as its
  \<open>authors\<close>, not the marker, and no other field of a record is ever the empty list.
\<close>

theorem no_authors_empty_list:
  "(filter (\<lambda>e. elem_tag e = ''Author'') (tl (iter a)) = [] \<longrightarrow>
      map_of (article_record a) ''authors'' = Some (PList [])
      \<and> map_of (article_record a) ''authors'' \<noteq> Some (PStr ''N/A''))
   \<and> (map_of (article_record a) k = Some (PList []) \<longrightarrow> k = ''authors'')"
proof -
  have "map_of (article_record a) ''authors'' = Some (PList [])"
    if "filter (\<lambda>e. elem_tag e = ''Author'') (tl (iter a)) = []"
    using that
    by (simp add: article_record_lookups article_authors_map findall_def path_Author_def
          iterfind_descendant)
  moreover have "k = ''authors''" if "map_of (article_record a) k = Some (PList [])"
    using that by (simp add: article_record_def split: if_splits)
  ultimately show ?thesis by simp
qed

theorem no_authors_empty_list_witness:
  "map_of (article_record article_two) ''authors'' = Some (PList [])
   \<and> map_of (article_record article_two) ''title'' = Some (PStr ''N/A'')"
  using no_authors_empty_list [of article_two "''title''"]
  by (simp add: article_two_def article_record_def findtext_def iterfind_def path_defs NA_def)

end
